theory Spec2Isabelle
  imports Complex_Main
begin

section \<open>Python values, objects and the store\<close>

text \<open>
  The embedding of \<^verbatim>\<open>FTT.py\<close>: one \<^verbatim>\<open>unittest.TestCase\<close> subclass with four
  lifecycle hooks and eight test methods. Dicts and mocks are mutable objects, so they live
  in a store and values refer to them by address; an address is the index of the object in
  the store, and allocation appends, so a new object never shares its address with an
  existing one.
\<close>

type_synonym addr = nat

datatype pyval =
    PyNone
  | PyBool bool
  | PyInt int
  | PyStr string
  | PyRef addr

text \<open>A dict keeps its items in insertion order; its keys here are strings.\<close>

type_synonym pydict = "(string \<times> pyval) list"

text \<open>
  The part of a \<^verbatim>\<open>MagicMock\<close> the file uses: the configured \<^verbatim>\<open>return_value\<close>
  (\<open>None\<close> while it is still the default), the configured \<^verbatim>\<open>side_effect\<close> (\<open>None\<close>
  when there is none; a list is kept as the items its iterator has not yet produced), the
  child mocks created by attribute access, and the recorded calls.
\<close>

record mock_obj =
  return_value :: "pyval option"
  side_effect :: "pyval list option"
  children :: "(string \<times> addr) list"
  call_args_list :: "pyval list list"

datatype obj = Dict pydict | Mock mock_obj

datatype py_error =
    AssertionError
  | AttributeError
  | KeyError
  | TypeError
  | StopIteration

text \<open>
  The eight test methods. \<^verbatim>\<open>unittest\<close> builds one \<^verbatim>\<open>TestFeedbackTracker\<close> instance
  per test method, so a test method also names the instance (\<^verbatim>\<open>self\<close>) it runs on.
\<close>

datatype test_name =
    Add_feedback
  | Remove_feedback
  | Database_integration
  | Feedback_retrieval
  | Feedback_submission_time
  | Sql_injection_protection
  | System_compatibility
  | Previous_bug_fix

text \<open>
  The program state: the store, the class attribute \<^verbatim>\<open>database_connection\<close>, the
  instance attribute \<^verbatim>\<open>feedback_entry\<close> of every instance (\<open>None\<close>: the attribute does
  not exist), and how often \<^verbatim>\<open>time.time()\<close> has been called.
\<close>

record py_state =
  heap :: "obj list"
  database_connection :: "pyval option"
  feedback_entry :: "test_name \<Rightarrow> pyval option"
  time_calls :: nat

text \<open>
  What the program reads from outside: \<^verbatim>\<open>sys.version_info\<close> and the value of the
  \<open>n\<close>-th call of \<^verbatim>\<open>time.time()\<close>. Nothing is assumed about either.

  A reading is a float, and \<^verbatim>\<open>end_time - start_time\<close> is the subtraction of IEEE 754
  doubles, which rounds: it need not be the exact difference of the two readings. The
  rounding is not modelled; \<open>float_sub\<close> stands for that subtraction and nothing is assumed
  about it. The comparison of a float with \<^verbatim>\<open>0.5\<close> is exact, as one half is a double.
\<close>

record version_info =
  major :: int
  minor :: int
  micro :: int
  releaselevel :: string
  serial :: int

record env =
  sys_version_info :: version_info
  time_readings :: "nat \<Rightarrow> real"
  float_sub :: "real \<Rightarrow> real \<Rightarrow> real"

definition initial_state :: py_state where
  "initial_state =
     \<lparr>heap = [], database_connection = None, feedback_entry = (\<lambda>_. None), time_calls = 0\<rparr>"

section \<open>Statements that may raise\<close>

type_synonym 'a M = "py_state \<Rightarrow> (py_error + 'a) \<times> py_state"

definition ret :: "'a \<Rightarrow> 'a M" where
  "ret x s = (Inr x, s)"

definition raise :: "py_error \<Rightarrow> 'a M" where
  "raise e s = (Inl e, s)"

text \<open>Sequencing: an exception leaves the rest of the block unexecuted.\<close>

definition bind :: "'a M \<Rightarrow> ('a \<Rightarrow> 'b M) \<Rightarrow> 'b M" where
  "bind m f s = (case m s of (Inl e, s') \<Rightarrow> (Inl e, s') | (Inr x, s') \<Rightarrow> f x s')"

definition lookup :: "py_state \<Rightarrow> addr \<Rightarrow> obj option" where
  "lookup s a = (if a < length (heap s) then Some (heap s ! a) else None)"

definition store :: "addr \<Rightarrow> obj \<Rightarrow> py_state \<Rightarrow> py_state" where
  "store a ob s = s\<lparr>heap := (heap s)[a := ob]\<rparr>"

definition new_object :: "obj \<Rightarrow> pyval M" where
  "new_object ob s = (Inr (PyRef (length (heap s))), s\<lparr>heap := heap s @ [ob]\<rparr>)"

text \<open>\<^verbatim>\<open>self.feedback_entry\<close>, read and assigned; \<^verbatim>\<open>cls.database_connection = v\<close>.\<close>

definition read_feedback_entry :: "test_name \<Rightarrow> pyval M" where
  "read_feedback_entry self s =
     (case feedback_entry s self of None \<Rightarrow> (Inl AttributeError, s) | Some v \<Rightarrow> (Inr v, s))"

definition assign_feedback_entry :: "test_name \<Rightarrow> pyval \<Rightarrow> unit M" where
  "assign_feedback_entry self v s =
     (Inr (), s\<lparr>feedback_entry := (feedback_entry s)(self \<mapsto> v)\<rparr>)"

definition assign_database_connection :: "pyval \<Rightarrow> unit M" where
  "assign_database_connection v s = (Inr (), s\<lparr>database_connection := Some v\<rparr>)"

text \<open>
  \<^verbatim>\<open>v[k]\<close> with a string key: a dict gives the item or \<^verbatim>\<open>KeyError\<close>; \<^verbatim>\<open>None\<close>, a
  bool, an int and a string raise \<^verbatim>\<open>TypeError\<close>; a \<^verbatim>\<open>MagicMock\<close> answers with a mock.
\<close>

definition subscript :: "pyval \<Rightarrow> string \<Rightarrow> pyval M" where
  "subscript v k s =
     (case v of
        PyRef a \<Rightarrow>
          (case lookup s a of
             Some (Dict d) \<Rightarrow>
               (case map_of d k of None \<Rightarrow> (Inl KeyError, s) | Some x \<Rightarrow> (Inr x, s))
           | Some (Mock m) \<Rightarrow>
               new_object (Mock \<lparr>return_value = None, side_effect = None, children = [],
                                 call_args_list = []\<rparr>) s
           | None \<Rightarrow> (Inl TypeError, s))
      | _ \<Rightarrow> (Inl TypeError, s))"

section \<open>Equality, truth value and ordering\<close>

text \<open>
  \<^verbatim>\<open>==\<close> on values that need no store: \<^verbatim>\<open>True == 1\<close> and \<^verbatim>\<open>False == 0\<close> as in
  Python; two references are compared by identity here.
\<close>

fun atom_eq :: "pyval \<Rightarrow> pyval \<Rightarrow> bool" where
  "atom_eq PyNone PyNone = True"
| "atom_eq (PyBool a) (PyBool b) = (a = b)"
| "atom_eq (PyInt a) (PyInt b) = (a = b)"
| "atom_eq (PyBool a) (PyInt b) = (b = (if a then 1 else 0))"
| "atom_eq (PyInt a) (PyBool b) = (a = (if b then 1 else 0))"
| "atom_eq (PyStr a) (PyStr b) = (a = b)"
| "atom_eq (PyRef a) (PyRef b) = (a = b)"
| "atom_eq _ _ = False"

text \<open>
  Two dicts are equal when they have the same number of items and every item of the first
  has an equal value under the same key in the second. The items of the dicts of this file
  are ints and strings; an item that is itself a reference is compared by identity.
\<close>

definition dict_eq :: "pydict \<Rightarrow> pydict \<Rightarrow> bool" where
  "dict_eq d1 d2 =
     (length d1 = length d2 \<and>
      list_all (\<lambda>(k, v). case map_of d2 k of None \<Rightarrow> False | Some v' \<Rightarrow> atom_eq v v') d1)"

text \<open>
  \<^verbatim>\<open>a == b\<close>: an object equals itself; two dicts are compared by content; a mock equals
  only itself.
\<close>

definition py_eq :: "py_state \<Rightarrow> pyval \<Rightarrow> pyval \<Rightarrow> bool" where
  "py_eq s a b =
     (case (a, b) of
        (PyRef x, PyRef y) \<Rightarrow>
          (if x = y then True
           else (case (lookup s x, lookup s y) of
                   (Some (Dict d1), Some (Dict d2)) \<Rightarrow> dict_eq d1 d2
                 | _ \<Rightarrow> False))
      | _ \<Rightarrow> atom_eq a b)"

text \<open>\<^verbatim>\<open>bool(v)\<close>: a \<^verbatim>\<open>MagicMock\<close> is true.\<close>

definition truthy :: "py_state \<Rightarrow> pyval \<Rightarrow> bool" where
  "truthy s v =
     (case v of
        PyNone \<Rightarrow> False
      | PyBool b \<Rightarrow> b
      | PyInt n \<Rightarrow> n \<noteq> 0
      | PyStr x \<Rightarrow> x \<noteq> []
      | PyRef a \<Rightarrow> (case lookup s a of Some (Dict d) \<Rightarrow> d \<noteq> [] | _ \<Rightarrow> True))"

text \<open>
  \<^verbatim>\<open>a >= b\<close> on two items of a tuple: numbers (a bool counts as 0 or 1) are ordered,
  strings are ordered by code point, anything else raises \<^verbatim>\<open>TypeError\<close>.
\<close>

fun str_ge :: "string \<Rightarrow> string \<Rightarrow> bool" where
  "str_ge _ [] = True"
| "str_ge [] (_ # _) = False"
| "str_ge (x # xs) (y # ys) =
     (if x = y then str_ge xs ys else (of_char y :: nat) < of_char x)"

fun as_number :: "pyval \<Rightarrow> int option" where
  "as_number (PyInt n) = Some n"
| "as_number (PyBool b) = Some (if b then 1 else 0)"
| "as_number _ = None"

definition val_ge :: "pyval \<Rightarrow> pyval \<Rightarrow> py_error + bool" where
  "val_ge a b =
     (case (as_number a, as_number b) of
        (Some m, Some n) \<Rightarrow> Inr (n \<le> m)
      | _ \<Rightarrow> (case (a, b) of (PyStr x, PyStr y) \<Rightarrow> Inr (str_ge x y) | _ \<Rightarrow> Inl TypeError))"

text \<open>
  \<^verbatim>\<open>a >= b\<close> on tuples: the first pair of unequal items decides; without one the longer
  tuple is the greater.
\<close>

fun tuple_ge :: "pyval list \<Rightarrow> pyval list \<Rightarrow> py_error + bool" where
  "tuple_ge _ [] = Inr True"
| "tuple_ge [] (_ # _) = Inr False"
| "tuple_ge (x # xs) (y # ys) = (if atom_eq x y then tuple_ge xs ys else val_ge x y)"

section \<open>The assertions of \<^verbatim>\<open>unittest.TestCase\<close>\<close>

definition fail_unless :: "bool \<Rightarrow> unit M" where
  "fail_unless b = (if b then ret () else raise AssertionError)"

definition assertEqual :: "pyval \<Rightarrow> pyval \<Rightarrow> unit M" where
  "assertEqual first second s = fail_unless (py_eq s first second) s"

definition assertNotEqual :: "pyval \<Rightarrow> pyval \<Rightarrow> unit M" where
  "assertNotEqual first second s = fail_unless (\<not> py_eq s first second) s"

definition assertIsNone :: "pyval \<Rightarrow> unit M" where
  "assertIsNone v = fail_unless (v = PyNone)"

definition assertTrue :: "pyval \<Rightarrow> unit M" where
  "assertTrue v s = fail_unless (truthy s v) s"

definition assertFalse :: "pyval \<Rightarrow> unit M" where
  "assertFalse v s = fail_unless (\<not> truthy s v) s"

definition assertLess :: "real \<Rightarrow> real \<Rightarrow> unit M" where
  "assertLess a b = fail_unless (a < b)"

definition assertGreaterEqual :: "pyval list \<Rightarrow> pyval list \<Rightarrow> unit M" where
  "assertGreaterEqual a b =
     (case tuple_ge a b of Inl e \<Rightarrow> raise e | Inr r \<Rightarrow> fail_unless r)"

section \<open>\<^verbatim>\<open>unittest.mock.MagicMock\<close>\<close>

definition default_mock :: mock_obj where
  "default_mock =
     \<lparr>return_value = None, side_effect = None, children = [], call_args_list = []\<rparr>"

definition MagicMock :: "pyval M" where
  "MagicMock = new_object (Mock default_mock)"

text \<open>
  \<^verbatim>\<open>m.name\<close>: the child mock of that name, created at the first access. Only a mock
  answers to an arbitrary attribute.
\<close>

definition mock_attr :: "pyval \<Rightarrow> string \<Rightarrow> pyval M" where
  "mock_attr m name s =
     (case m of
        PyRef a \<Rightarrow>
          (case lookup s a of
             Some (Mock mo) \<Rightarrow>
               (case map_of (children mo) name of
                  Some c \<Rightarrow> (Inr (PyRef c), s)
                | None \<Rightarrow>
                    (let c = length (heap s);
                         s1 = store a (Mock (mo\<lparr>children := children mo @ [(name, c)]\<rparr>)) s
                     in new_object (Mock default_mock) s1))
           | _ \<Rightarrow> (Inl AttributeError, s))
      | _ \<Rightarrow> (Inl AttributeError, s))"

text \<open>\<^verbatim>\<open>m.return_value = v\<close> and \<^verbatim>\<open>m.side_effect = [x, ...]\<close>.\<close>

definition set_return_value :: "pyval \<Rightarrow> pyval \<Rightarrow> unit M" where
  "set_return_value m v s =
     (case m of
        PyRef a \<Rightarrow>
          (case lookup s a of
             Some (Mock mo) \<Rightarrow> (Inr (), store a (Mock (mo\<lparr>return_value := Some v\<rparr>)) s)
           | _ \<Rightarrow> (Inl AttributeError, s))
      | _ \<Rightarrow> (Inl AttributeError, s))"

definition set_side_effect :: "pyval \<Rightarrow> pyval list \<Rightarrow> unit M" where
  "set_side_effect m xs s =
     (case m of
        PyRef a \<Rightarrow>
          (case lookup s a of
             Some (Mock mo) \<Rightarrow> (Inr (), store a (Mock (mo\<lparr>side_effect := Some xs\<rparr>)) s)
           | _ \<Rightarrow> (Inl AttributeError, s))
      | _ \<Rightarrow> (Inl AttributeError, s))"

text \<open>
  \<^verbatim>\<open>m(args)\<close>: the call is recorded; a side-effect iterator yields its next item, and
  \<^verbatim>\<open>StopIteration\<close> once it has none left; otherwise the call returns
  \<^verbatim>\<open>return_value\<close>, which is a new mock, kept for later calls, when none was configured.
  Only a mock is callable.
\<close>

definition mock_call :: "pyval \<Rightarrow> pyval list \<Rightarrow> pyval M" where
  "mock_call m args s =
     (case m of
        PyRef a \<Rightarrow>
          (case lookup s a of
             Some (Mock mo) \<Rightarrow>
               (let mo1 = mo\<lparr>call_args_list := call_args_list mo @ [args]\<rparr>
                in case side_effect mo1 of
                     Some [] \<Rightarrow> (Inl StopIteration, store a (Mock mo1) s)
                   | Some (x # xs) \<Rightarrow> (Inr x, store a (Mock (mo1\<lparr>side_effect := Some xs\<rparr>)) s)
                   | None \<Rightarrow>
                       (case return_value mo1 of
                          Some v \<Rightarrow> (Inr v, store a (Mock mo1) s)
                        | None \<Rightarrow>
                            (let c = PyRef (length (heap s));
                                 s1 = store a (Mock (mo1\<lparr>return_value := Some c\<rparr>)) s
                             in new_object (Mock default_mock) s1)))
           | _ \<Rightarrow> (Inl TypeError, s))
      | _ \<Rightarrow> (Inl TypeError, s))"

section \<open>\<^verbatim>\<open>time\<close> and \<^verbatim>\<open>sys\<close>\<close>

definition time_time :: "env \<Rightarrow> real M" where
  "time_time e s = (Inr (time_readings e (time_calls s)), s\<lparr>time_calls := Suc (time_calls s)\<rparr>)"

text \<open>
  \<^verbatim>\<open>time.sleep\<close> blocks and changes nothing in the program's state; how far the clock
  has moved shows in the next reading only, so the duration asked for plays no part here.
\<close>

definition time_sleep :: "real \<Rightarrow> unit M" where
  "time_sleep d = ret ()"

definition version_tuple :: "version_info \<Rightarrow> pyval list" where
  "version_tuple v =
     [PyInt (major v), PyInt (minor v), PyInt (micro v), PyStr (releaselevel v),
      PyInt (serial v)]"

section \<open>\<^verbatim>\<open>TestFeedbackTracker\<close>: the lifecycle hooks\<close>

definition setUpClass :: "unit M" where
  "setUpClass = assign_database_connection (PyStr ''Mock Database Connection'')"

definition tearDownClass :: "unit M" where
  "tearDownClass = assign_database_connection PyNone"

definition fixture :: pydict where
  "fixture =
     [(''student_id'', PyInt 12345),
      (''course'', PyStr ''CS101''),
      (''feedback'', PyStr ''Great course!'')]"

definition setUp :: "test_name \<Rightarrow> unit M" where
  "setUp self = bind (new_object (Dict fixture)) (assign_feedback_entry self)"

definition tearDown :: "test_name \<Rightarrow> unit M" where
  "tearDown self = assign_feedback_entry self PyNone"

section \<open>\<^verbatim>\<open>TestFeedbackTracker\<close>: the test methods\<close>

definition test_add_feedback :: "test_name \<Rightarrow> unit M" where
  "test_add_feedback self =
     bind (read_feedback_entry self) (\<lambda>entry.
     bind (subscript entry ''course'') (\<lambda>course.
     assertEqual course (PyStr ''CS101'')))"

definition test_remove_feedback :: "test_name \<Rightarrow> unit M" where
  "test_remove_feedback self =
     bind (assign_feedback_entry self PyNone) (\<lambda>_.
     bind (read_feedback_entry self) (\<lambda>entry.
     assertIsNone entry))"

definition test_database_integration :: "test_name \<Rightarrow> unit M" where
  "test_database_integration self =
     bind MagicMock (\<lambda>mock_db.
     bind (mock_attr mock_db ''insert_feedback'') (\<lambda>insert_feedback.
     bind (set_return_value insert_feedback (PyBool True)) (\<lambda>_.
     bind (mock_attr mock_db ''insert_feedback'') (\<lambda>insert_feedback.
     bind (read_feedback_entry self) (\<lambda>entry.
     bind (mock_call insert_feedback [entry]) (\<lambda>result.
     assertTrue result))))))"

text \<open>Lines 76 to 78 of \<^verbatim>\<open>test_feedback_retrieval\<close>, up to the value of \<^verbatim>\<open>result\<close>.\<close>

definition feedback_retrieval_result :: "test_name \<Rightarrow> pyval M" where
  "feedback_retrieval_result self =
     bind MagicMock (\<lambda>mock_db.
     bind (read_feedback_entry self) (\<lambda>entry.
     bind (mock_attr mock_db ''get_feedback'') (\<lambda>get_feedback.
     bind (set_return_value get_feedback entry) (\<lambda>_.
     bind (mock_attr mock_db ''get_feedback'') (\<lambda>get_feedback.
     mock_call get_feedback [PyInt 12345])))))"

definition test_feedback_retrieval :: "test_name \<Rightarrow> unit M" where
  "test_feedback_retrieval self =
     bind (feedback_retrieval_result self) (\<lambda>result.
     bind (read_feedback_entry self) (\<lambda>entry.
     assertEqual result entry))"

definition test_feedback_submission_time :: "env \<Rightarrow> test_name \<Rightarrow> unit M" where
  "test_feedback_submission_time e self =
     bind (time_time e) (\<lambda>start_time.
     bind (time_sleep (1 / 10)) (\<lambda>_.
     bind (time_time e) (\<lambda>end_time.
     assertLess (float_sub e end_time start_time) (1 / 2))))"

text \<open>Lines 96 to 99 of \<^verbatim>\<open>test_sql_injection_protection\<close>, up to the value of \<^verbatim>\<open>result\<close>.\<close>

definition malicious_input :: string where
  "malicious_input = ''DROP TABLE feedback; --''"

definition sql_injection_result :: "test_name \<Rightarrow> pyval M" where
  "sql_injection_result self =
     bind MagicMock (\<lambda>mock_db.
     bind (mock_attr mock_db ''add_feedback'') (\<lambda>add_feedback.
     bind (set_return_value add_feedback (PyBool False)) (\<lambda>_.
     bind (mock_attr mock_db ''add_feedback'') (\<lambda>add_feedback.
     bind (new_object (Dict [(''student_id'', PyInt 12345), (''course'', PyStr ''CS101''),
                             (''feedback'', PyStr malicious_input)])) (\<lambda>record.
     mock_call add_feedback [record])))))"

definition test_sql_injection_protection :: "test_name \<Rightarrow> unit M" where
  "test_sql_injection_protection self =
     bind (sql_injection_result self) (\<lambda>result. assertFalse result)"

definition test_system_compatibility :: "env \<Rightarrow> test_name \<Rightarrow> unit M" where
  "test_system_compatibility e self =
     assertGreaterEqual (version_tuple (sys_version_info e)) [PyInt 3, PyInt 6]"

text \<open>
  Lines 115 to 118 of \<^verbatim>\<open>test_previous_bug_fix\<close>, up to the values of
  \<^verbatim>\<open>first_attempt\<close> and \<^verbatim>\<open>second_attempt\<close>.
\<close>

definition previous_bug_fix_attempts :: "test_name \<Rightarrow> (pyval \<times> pyval) M" where
  "previous_bug_fix_attempts self =
     bind MagicMock (\<lambda>mock_db.
     bind (mock_attr mock_db ''get_feedback'') (\<lambda>get_feedback.
     bind (set_side_effect get_feedback [PyStr ''Old Feedback'', PyStr ''Fixed Feedback'']) (\<lambda>_.
     bind (mock_attr mock_db ''get_feedback'') (\<lambda>get_feedback.
     bind (mock_call get_feedback [PyInt 12345]) (\<lambda>first_attempt.
     bind (mock_attr mock_db ''get_feedback'') (\<lambda>get_feedback.
     bind (mock_call get_feedback [PyInt 12345]) (\<lambda>second_attempt.
     ret (first_attempt, second_attempt))))))))"

definition test_previous_bug_fix :: "test_name \<Rightarrow> unit M" where
  "test_previous_bug_fix self =
     bind (previous_bug_fix_attempts self) (\<lambda>(first_attempt, second_attempt).
     assertNotEqual first_attempt second_attempt)"

fun test_method :: "env \<Rightarrow> test_name \<Rightarrow> unit M" where
  "test_method e Add_feedback = test_add_feedback Add_feedback"
| "test_method e Remove_feedback = test_remove_feedback Remove_feedback"
| "test_method e Database_integration = test_database_integration Database_integration"
| "test_method e Feedback_retrieval = test_feedback_retrieval Feedback_retrieval"
| "test_method e Feedback_submission_time =
     test_feedback_submission_time e Feedback_submission_time"
| "test_method e Sql_injection_protection =
     test_sql_injection_protection Sql_injection_protection"
| "test_method e System_compatibility = test_system_compatibility e System_compatibility"
| "test_method e Previous_bug_fix = test_previous_bug_fix Previous_bug_fix"

section \<open>The \<^verbatim>\<open>unittest\<close> runner\<close>

text \<open>
  \<^verbatim>\<open>unittest.main()\<close> without command-line arguments: the loader collects the methods of
  the class whose names start with \<^verbatim>\<open>test\<close>, sorted by name, and builds one instance for
  each; the runner calls \<^verbatim>\<open>setUpClass\<close>, then for every test \<^verbatim>\<open>setUp\<close>, the test
  method and \<^verbatim>\<open>tearDown\<close>, then \<^verbatim>\<open>tearDownClass\<close>; the process exits with status 0
  when the result was successful and 1 otherwise.
\<close>

fun method_name :: "test_name \<Rightarrow> string" where
  "method_name Add_feedback = ''test_add_feedback''"
| "method_name Remove_feedback = ''test_remove_feedback''"
| "method_name Database_integration = ''test_database_integration''"
| "method_name Feedback_retrieval = ''test_feedback_retrieval''"
| "method_name Feedback_submission_time = ''test_feedback_submission_time''"
| "method_name Sql_injection_protection = ''test_sql_injection_protection''"
| "method_name System_compatibility = ''test_system_compatibility''"
| "method_name Previous_bug_fix = ''test_previous_bug_fix''"

definition test_names :: "test_name list" where
  "test_names =
     [Add_feedback, Database_integration, Feedback_retrieval, Feedback_submission_time,
      Previous_bug_fix, Remove_feedback, Sql_injection_protection, System_compatibility]"

record test_result =
  testsRun :: nat
  failures :: "string list"
  errors :: "string list"

definition empty_result :: test_result where
  "empty_result = \<lparr>testsRun = 0, failures = [], errors = []\<rparr>"

text \<open>An \<^verbatim>\<open>AssertionError\<close> is a failure, any other exception an error.\<close>

definition add_outcome :: "string \<Rightarrow> py_error + unit \<Rightarrow> test_result \<Rightarrow> test_result" where
  "add_outcome name r res =
     (case r of
        Inr _ \<Rightarrow> res
      | Inl AssertionError \<Rightarrow> res\<lparr>failures := failures res @ [name]\<rparr>
      | Inl _ \<Rightarrow> res\<lparr>errors := errors res @ [name]\<rparr>)"

text \<open>An exception of a class-level hook is always an error.\<close>

definition add_class_outcome :: "string \<Rightarrow> py_error + unit \<Rightarrow> test_result \<Rightarrow> test_result" where
  "add_class_outcome name r res =
     (case r of Inr _ \<Rightarrow> res | Inl _ \<Rightarrow> res\<lparr>errors := errors res @ [name]\<rparr>)"

text \<open>
  The runs below also return the state after every phase, labelled with the phase, so that
  what a test saw can be read off.
\<close>

datatype phase =
    Start
  | SetUpClass
  | SetUp test_name
  | Test test_name
  | TearDown test_name
  | TearDownClass

type_synonym trace = "(phase \<times> py_state) list"

text \<open>
  One test: when \<^verbatim>\<open>setUp\<close> raises, neither the test method nor \<^verbatim>\<open>tearDown\<close> runs;
  otherwise \<^verbatim>\<open>tearDown\<close> runs whether or not the test method raised.
\<close>

definition run_case ::
  "env \<Rightarrow> test_name \<Rightarrow> test_result \<Rightarrow> py_state \<Rightarrow> test_result \<times> trace \<times> py_state" where
  "run_case e t res s =
     (let res0 = res\<lparr>testsRun := Suc (testsRun res)\<rparr>
      in case setUp t s of
           (Inl err, s1) \<Rightarrow> (add_outcome (method_name t) (Inl err) res0, [(SetUp t, s1)], s1)
         | (Inr _, s1) \<Rightarrow>
             (case test_method e t s1 of
                (r, s2) \<Rightarrow>
                  (case tearDown t s2 of
                     (r', s3) \<Rightarrow>
                       (add_outcome (method_name t) r' (add_outcome (method_name t) r res0),
                        [(SetUp t, s1), (Test t, s2), (TearDown t, s3)], s3))))"

fun run_cases ::
  "env \<Rightarrow> test_name list \<Rightarrow> test_result \<Rightarrow> py_state \<Rightarrow> test_result \<times> trace \<times> py_state" where
  "run_cases e [] res s = (res, [], s)"
| "run_cases e (t # ts) res s =
     (case run_case e t res s of
        (res1, tr1, s1) \<Rightarrow>
          (case run_cases e ts res1 s1 of
             (res2, tr2, s2) \<Rightarrow> (res2, tr1 @ tr2, s2)))"

text \<open>When \<^verbatim>\<open>setUpClass\<close> raises, no test of the class runs, nor does \<^verbatim>\<open>tearDownClass\<close>.\<close>

definition run_suite :: "env \<Rightarrow> test_result \<times> trace \<times> py_state" where
  "run_suite e =
     (case setUpClass initial_state of
        (Inl err, s1) \<Rightarrow>
          (add_class_outcome ''setUpClass'' (Inl err) empty_result,
           [(Start, initial_state), (SetUpClass, s1)], s1)
      | (Inr _, s1) \<Rightarrow>
          (case run_cases e test_names empty_result s1 of
             (res, tr, s2) \<Rightarrow>
               (case tearDownClass s2 of
                  (r, s3) \<Rightarrow>
                    (add_class_outcome ''tearDownClass'' r res,
                     (Start, initial_state) # (SetUpClass, s1) # tr @ [(TearDownClass, s3)],
                     s3))))"

definition wasSuccessful :: "test_result \<Rightarrow> bool" where
  "wasSuccessful res = (failures res = [] \<and> errors res = [])"

definition unittest_main :: "env \<Rightarrow> nat" where
  "unittest_main e = (if wasSuccessful (fst (run_suite e)) then 0 else 1)"

text \<open>
  Lines 121 and 122: the module runs the suite only when it is executed as a script; the
  result is the exit status of the process, \<open>None\<close> when the module was imported.
\<close>

definition FTT :: "string \<Rightarrow> env \<Rightarrow> nat option" where
  "FTT name e = (if name = ''__main__'' then Some (unittest_main e) else None)"

text \<open>Whether a test method, run on its own freshly set up instance, raises nothing.\<close>

definition passes :: "env \<Rightarrow> test_name \<Rightarrow> py_state \<Rightarrow> bool" where
  "passes e t s = (fst (test_method e t (snd (setUp t s))) = Inr ())"

section \<open>Reading a run\<close>

text \<open>
  What the instance of test \<open>t\<close> holds in \<^verbatim>\<open>feedback_entry\<close> when its test method starts,
  that is in the state its \<^verbatim>\<open>setUp\<close> has left.
\<close>

definition seen_by :: "trace \<Rightarrow> test_name \<Rightarrow> pyval option" where
  "seen_by tr t = (case map_of tr (SetUp t) of None \<Rightarrow> None | Some s \<Rightarrow> feedback_entry s t)"

text \<open>The instance of \<open>t\<close> refers to a dict of the store whose content is the fixture.\<close>

definition sees_fixture :: "py_state \<Rightarrow> test_name \<Rightarrow> bool" where
  "sees_fixture s t =
     (case feedback_entry s t of
        Some (PyRef a) \<Rightarrow> lookup s a = Some (Dict fixture)
      | _ \<Rightarrow> False)"

text \<open>The test method of \<open>t\<close> raises nothing in the state in which the run starts it.\<close>

definition check_holds :: "env \<Rightarrow> trace \<Rightarrow> test_name \<Rightarrow> bool" where
  "check_holds e tr t =
     (case map_of tr (SetUp t) of
        None \<Rightarrow> False
      | Some s \<Rightarrow> fst (test_method e t s) = Inr ())"

text \<open>How often the value changes along a list of successive observations.\<close>

fun changes :: "'a list \<Rightarrow> nat" where
  "changes (x # y # ys) = (if x = y then 0 else 1) + changes (y # ys)"
| "changes _ = 0"

text \<open>
  Environments to run the suite in: CPython 3.\<open>m\<close>, and a clock that starts at 0 and
  advances by \<open>d\<close> seconds between two readings. The difference of two readings is taken
  exactly, which is what the subtraction of doubles gives on the readings used below
  (0 and \<open>1 / 8\<close>, 0 and 1).
\<close>

definition example_env :: "int \<Rightarrow> real \<Rightarrow> env" where
  "example_env m d =
     \<lparr>sys_version_info =
        \<lparr>major = 3, minor = m, micro = 0, releaselevel = ''final'', serial = 0\<rparr>,
      time_readings = (\<lambda>n. real n * d),
      float_sub = (\<lambda>a b. a - b)\<rparr>"

section \<open>The primitives, evaluated\<close>

lemmas prim_defs = bind_def ret_def raise_def lookup_def store_def new_object_def
  read_feedback_entry_def assign_feedback_entry_def assign_database_connection_def
  subscript_def fail_unless_def assertEqual_def assertNotEqual_def assertIsNone_def
  assertTrue_def assertFalse_def assertLess_def assertGreaterEqual_def
  MagicMock_def default_mock_def mock_attr_def set_return_value_def set_side_effect_def
  mock_call_def time_time_def time_sleep_def py_eq_def truthy_def

lemma py_eq_refl: "py_eq s v v"
  by (cases v) (simp_all add: py_eq_def)

lemma setUp_eq:
  "setUp self s =
     (Inr (), s\<lparr>heap := heap s @ [Dict fixture],
                feedback_entry := (feedback_entry s)(self \<mapsto> PyRef (length (heap s)))\<rparr>)"
  by (simp add: setUp_def prim_defs)

lemma tearDown_eq:
  "tearDown self s = (Inr (), s\<lparr>feedback_entry := (feedback_entry s)(self \<mapsto> PyNone)\<rparr>)"
  by (simp add: tearDown_def assign_feedback_entry_def)

section \<open>Every test method, from start to end\<close>

lemma add_eq:
  "feedback_entry s self = Some (PyRef a) \<Longrightarrow> a < length (heap s) \<Longrightarrow>
   heap s ! a = Dict fixture \<Longrightarrow> test_add_feedback self s = (Inr (), s)"
  by (simp add: test_add_feedback_def fixture_def prim_defs)

lemma remove_eq:
  "test_remove_feedback self s =
     (Inr (), s\<lparr>feedback_entry := (feedback_entry s)(self \<mapsto> PyNone)\<rparr>)"
  by (simp add: test_remove_feedback_def prim_defs)

lemma integration_eq:
  "feedback_entry s self = Some v \<Longrightarrow>
   test_database_integration self s =
     (Inr (),
      s\<lparr>heap := heap s @
           [Mock \<lparr>return_value = None, side_effect = None,
                  children = [(''insert_feedback'', Suc (length (heap s)))],
                  call_args_list = []\<rparr>,
            Mock \<lparr>return_value = Some (PyBool True), side_effect = None, children = [],
                  call_args_list = [[v]]\<rparr>]\<rparr>)"
  by (simp add: test_database_integration_def prim_defs Let_def nth_append list_update_append)

lemma retrieval_eq:
  "feedback_entry s self = Some v \<Longrightarrow>
   feedback_retrieval_result self s =
     (Inr v,
      s\<lparr>heap := heap s @
           [Mock \<lparr>return_value = None, side_effect = None,
                  children = [(''get_feedback'', Suc (length (heap s)))],
                  call_args_list = []\<rparr>,
            Mock \<lparr>return_value = Some v, side_effect = None, children = [],
                  call_args_list = [[PyInt 12345]]\<rparr>]\<rparr>)"
  by (simp add: feedback_retrieval_result_def prim_defs Let_def nth_append list_update_append)

lemma retrieval_test_eq:
  "feedback_entry s self = Some v \<Longrightarrow>
   test_feedback_retrieval self s = (Inr (), snd (feedback_retrieval_result self s))"
  by (simp add: test_feedback_retrieval_def bind_def retrieval_eq read_feedback_entry_def
      assertEqual_def fail_unless_def ret_def py_eq_refl)

lemma sql_eq:
  "sql_injection_result self s =
     (Inr (PyBool False),
      s\<lparr>heap := heap s @
           [Mock \<lparr>return_value = None, side_effect = None,
                  children = [(''add_feedback'', Suc (length (heap s)))],
                  call_args_list = []\<rparr>,
            Mock \<lparr>return_value = Some (PyBool False), side_effect = None, children = [],
                  call_args_list = [[PyRef (Suc (Suc (length (heap s))))]]\<rparr>,
            Dict [(''student_id'', PyInt 12345), (''course'', PyStr ''CS101''),
                  (''feedback'', PyStr ''DROP TABLE feedback; --'')]]\<rparr>)"
  by (simp add: sql_injection_result_def prim_defs Let_def nth_append list_update_append
      malicious_input_def)

lemma sql_test_eq:
  "test_sql_injection_protection self s = (Inr (), snd (sql_injection_result self s))"
  by (simp add: test_sql_injection_protection_def bind_def sql_eq assertFalse_def truthy_def
      fail_unless_def ret_def)

lemma bugfix_eq:
  "previous_bug_fix_attempts self s =
     (Inr (PyStr ''Old Feedback'', PyStr ''Fixed Feedback''),
      s\<lparr>heap := heap s @
           [Mock \<lparr>return_value = None, side_effect = None,
                  children = [(''get_feedback'', Suc (length (heap s)))],
                  call_args_list = []\<rparr>,
            Mock \<lparr>return_value = None, side_effect = Some [], children = [],
                  call_args_list = [[PyInt 12345], [PyInt 12345]]\<rparr>]\<rparr>)"
  by (simp add: previous_bug_fix_attempts_def prim_defs Let_def nth_append list_update_append)

lemma bugfix_test_eq:
  "test_previous_bug_fix self s = (Inr (), snd (previous_bug_fix_attempts self s))"
  by (simp add: test_previous_bug_fix_def bind_def bugfix_eq assertNotEqual_def py_eq_def
      fail_unless_def ret_def)

lemma time_eq:
  "test_feedback_submission_time e self s =
     (if float_sub e (time_readings e (Suc (time_calls s))) (time_readings e (time_calls s))
              < 1 / 2
      then Inr () else Inl AssertionError,
      s\<lparr>time_calls := Suc (Suc (time_calls s))\<rparr>)"
  by (simp add: test_feedback_submission_time_def prim_defs)

lemma compat_eq:
  "test_system_compatibility e self s =
     (if 3 < major (sys_version_info e) \<or>
         (major (sys_version_info e) = 3 \<and> 6 \<le> minor (sys_version_info e))
      then Inr () else Inl AssertionError, s)"
  by (auto simp add: test_system_compatibility_def version_tuple_def val_ge_def prim_defs)

lemmas test_eqs = setUp_eq add_eq remove_eq integration_eq retrieval_test_eq retrieval_eq
  sql_test_eq sql_eq bugfix_test_eq bugfix_eq time_eq compat_eq

text \<open>No test method reads or writes the class attribute, whatever state it starts in.\<close>

lemma test_method_ignores_handle:
  "test_method e t (s\<lparr>database_connection := v\<rparr>) =
     (fst (test_method e t s), (snd (test_method e t s))\<lparr>database_connection := v\<rparr>)"
  by (cases t)
     (auto simp add: test_add_feedback_def test_remove_feedback_def
        test_database_integration_def test_feedback_retrieval_def
        feedback_retrieval_result_def test_feedback_submission_time_def
        test_sql_injection_protection_def sql_injection_result_def
        test_system_compatibility_def test_previous_bug_fix_def
        previous_bug_fix_attempts_def prim_defs Let_def nth_append list_update_append
        split: option.splits pyval.splits obj.splits sum.splits list.splits)

lemma test_method_keeps_handle:
  "database_connection (snd (test_method e t s)) = database_connection s"
proof -
  let ?r = "test_method e t s"
  have "?r = (fst ?r, (snd ?r)\<lparr>database_connection := database_connection s\<rparr>)"
    using test_method_ignores_handle
      [where e = e and t = t and s = s and v = "database_connection s"]
    by simp
  then have "snd ?r = (snd ?r)\<lparr>database_connection := database_connection s\<rparr>"
    by (metis snd_conv)
  moreover have
    "database_connection ((snd ?r)\<lparr>database_connection := database_connection s\<rparr>) =
       database_connection s"
    by simp
  ultimately show ?thesis
    by metis
qed

section \<open>One test of the suite: \<^verbatim>\<open>setUp\<close>, test method, \<^verbatim>\<open>tearDown\<close>\<close>

lemma run_case_eq:
  "run_case e t res s =
     (add_outcome (method_name t) (fst (test_method e t (snd (setUp t s))))
        (res\<lparr>testsRun := Suc (testsRun res)\<rparr>),
      [(SetUp t, snd (setUp t s)),
       (Test t, snd (test_method e t (snd (setUp t s)))),
       (TearDown t, snd (tearDown t (snd (test_method e t (snd (setUp t s))))))],
      snd (tearDown t (snd (test_method e t (snd (setUp t s))))))"
  by (simp add: run_case_def setUp_eq tearDown_eq Let_def case_prod_beta add_outcome_def)

lemma after_setUp_verdict:
  "fst (test_method e t (snd (setUp t s))) =
     (case t of
        Feedback_submission_time \<Rightarrow>
          (if float_sub e (time_readings e (Suc (time_calls s))) (time_readings e (time_calls s))
              < 1 / 2
           then Inr () else Inl AssertionError)
      | System_compatibility \<Rightarrow>
          (if 3 < major (sys_version_info e) \<or>
              (major (sys_version_info e) = 3 \<and> 6 \<le> minor (sys_version_info e))
           then Inr () else Inl AssertionError)
      | _ \<Rightarrow> Inr ())"
  by (cases t) (simp_all add: test_eqs nth_append)

lemma after_setUp_heap_length:
  "length (heap (snd (test_method e t (snd (setUp t s))))) =
     Suc (length (heap s)) +
     (case t of
        Database_integration \<Rightarrow> 2
      | Feedback_retrieval \<Rightarrow> 2
      | Previous_bug_fix \<Rightarrow> 2
      | Sql_injection_protection \<Rightarrow> 3
      | _ \<Rightarrow> 0)"
  by (cases t) (simp_all add: test_eqs nth_append)

lemma after_setUp_feedback_entry:
  "feedback_entry (snd (test_method e t (snd (setUp t s)))) =
     (feedback_entry s)
       (t \<mapsto> (if t = Remove_feedback then PyNone else PyRef (length (heap s))))"
  by (cases t) (simp_all add: test_eqs nth_append)

lemma after_setUp_time_calls:
  "time_calls (snd (test_method e t (snd (setUp t s)))) =
     time_calls s + (if t = Feedback_submission_time then 2 else 0)"
  by (cases t) (simp_all add: test_eqs nth_append)

lemma setUp_proj:
  "heap (snd (setUp t s)) = heap s @ [Dict fixture]"
  "feedback_entry (snd (setUp t s)) = (feedback_entry s)(t \<mapsto> PyRef (length (heap s)))"
  "database_connection (snd (setUp t s)) = database_connection s"
  "time_calls (snd (setUp t s)) = time_calls s"
  by (simp_all add: setUp_eq)

lemma tearDown_proj:
  "heap (snd (tearDown t s)) = heap s"
  "feedback_entry (snd (tearDown t s)) = (feedback_entry s)(t \<mapsto> PyNone)"
  "database_connection (snd (tearDown t s)) = database_connection s"
  "time_calls (snd (tearDown t s)) = time_calls s"
  by (simp_all add: tearDown_eq)

lemma lookup_setUp:
  "lookup (snd (setUp t s)) a =
     (if a = length (heap s) then Some (Dict fixture) else lookup s a)"
  by (simp add: lookup_def setUp_eq nth_append)

lemma wasSuccessful_add_outcome:
  "wasSuccessful (add_outcome name r res) = (r = Inr () \<and> wasSuccessful res)"
  by (auto simp add: wasSuccessful_def add_outcome_def split: sum.splits py_error.splits)

lemma wasSuccessful_testsRun: "wasSuccessful (res\<lparr>testsRun := n\<rparr>) = wasSuccessful res"
  by (simp add: wasSuccessful_def)

lemma wasSuccessful_empty: "wasSuccessful empty_result"
  by (simp add: wasSuccessful_def empty_result_def)

lemma testsRun_add_outcome: "testsRun (add_outcome name r res) = testsRun res"
  by (simp add: add_outcome_def split: sum.splits py_error.splits)

section \<open>The whole run\<close>

lemmas suite_simps = run_suite_def test_names_def run_case_eq setUpClass_def tearDownClass_def
  assign_database_connection_def add_class_outcome_def
  after_setUp_verdict after_setUp_heap_length after_setUp_feedback_entry
  test_method_keeps_handle after_setUp_time_calls setUp_proj tearDown_proj

lemma trace_handle:
  "map (database_connection \<circ> snd) (fst (snd (run_suite e))) =
     None # replicate 25 (Some (PyStr ''Mock Database Connection'')) @ [Some PyNone]"
  by (simp add: suite_simps initial_state_def eval_nat_numeral del: test_method.simps)

lemma changes_replicate: "changes (x # replicate n x @ ys) = changes (x # ys)"
  by (induction n) simp_all

lemma trace_handle_changes:
  "changes (map (database_connection \<circ> snd) (fst (snd (run_suite e)))) = 2"
proof -
  have "changes (None # Some (PyStr ''Mock Database Connection'') #
          replicate 24 (Some (PyStr ''Mock Database Connection'')) @ [Some PyNone]) = 2"
    unfolding changes.simps(1) [of None] changes_replicate by simp
  then show ?thesis
    by (simp add: trace_handle eval_nat_numeral)
qed

lemma trace_phases:
  "map fst (fst (snd (run_suite e))) =
     Start # SetUpClass #
     concat (map (\<lambda>t. [SetUp t, Test t, TearDown t]) test_names) @ [TearDownClass]"
  by (simp add: suite_simps del: test_method.simps)

lemma seen_all:
  "map (seen_by (fst (snd (run_suite e)))) test_names =
     [Some (PyRef 0), Some (PyRef 1), Some (PyRef 4), Some (PyRef 7), Some (PyRef 8),
      Some (PyRef 11), Some (PyRef 12), Some (PyRef 16)]"
  by (simp add: seen_by_def suite_simps initial_state_def del: test_method.simps)

lemma sees_all:
  "list_all (\<lambda>t. case map_of (fst (snd (run_suite e))) (SetUp t) of
                    None \<Rightarrow> False | Some s \<Rightarrow> sees_fixture s t) test_names"
  by (simp add: sees_fixture_def lookup_setUp suite_simps initial_state_def
      del: test_method.simps)

lemma cleared_all:
  "list_all (\<lambda>t. case map_of (fst (snd (run_suite e))) (TearDown t) of
                    None \<Rightarrow> False | Some s \<Rightarrow> feedback_entry s t = Some PyNone) test_names"
  by (simp add: suite_simps initial_state_def del: test_method.simps)

lemma exit_eq:
  "unittest_main e =
     (if float_sub e (time_readings e 1) (time_readings e 0) < 1 / 2 \<and>
         (3 < major (sys_version_info e) \<or>
          (major (sys_version_info e) = 3 \<and> 6 \<le> minor (sys_version_info e)))
      then 0 else 1)"
  by (simp add: unittest_main_def wasSuccessful_add_outcome wasSuccessful_testsRun
      testsRun_add_outcome wasSuccessful_empty suite_simps initial_state_def
      del: test_method.simps)

lemma holds_eq:
  "list_all (check_holds e (fst (snd (run_suite e)))) test_names =
     (float_sub e (time_readings e 1) (time_readings e 0) < 1 / 2 \<and>
      (3 < major (sys_version_info e) \<or>
       (major (sys_version_info e) = 3 \<and> 6 \<le> minor (sys_version_info e))))"
  by (simp add: check_holds_def suite_simps initial_state_def del: test_method.simps)

lemma tests_run: "testsRun (fst (run_suite e)) = 8"
  by (simp add: testsRun_add_outcome suite_simps empty_result_def del: test_method.simps)

lemma test_names_all: "set test_names = UNIV"
proof -
  have "t \<in> set test_names" for t
    by (cases t) (simp_all add: test_names_def)
  then show ?thesis by blast
qed

section \<open>The claims\<close>

text \<open>
  C1. In the retrieval check the mock's \<^verbatim>\<open>get_feedback\<close> is configured to return the
  fixture record; the query with the identifier 12345 then returns the very reference the
  instance holds, which refers to the three-field fixture mapping, the call is recorded with
  that identifier, and the equality assertion of the check holds. This is so in whatever
  state \<^verbatim>\<open>setUp\<close> ran.
\<close>

theorem retrieval_returns_fixture:
  "fst (feedback_retrieval_result self (snd (setUp self s))) = Inr (PyRef (length (heap s)))
   \<and> feedback_entry (snd (feedback_retrieval_result self (snd (setUp self s)))) self =
       Some (PyRef (length (heap s)))
   \<and> lookup (snd (feedback_retrieval_result self (snd (setUp self s)))) (length (heap s)) =
       Some (Dict [(''student_id'', PyInt 12345), (''course'', PyStr ''CS101''),
                   (''feedback'', PyStr ''Great course!'')])
   \<and> lookup (snd (feedback_retrieval_result self (snd (setUp self s))))
         (length (heap s) + 2) =
       Some (Mock \<lparr>return_value = Some (PyRef (length (heap s))), side_effect = None,
                   children = [], call_args_list = [[PyInt 12345]]\<rparr>)
   \<and> py_eq (snd (feedback_retrieval_result self (snd (setUp self s))))
         (PyRef (length (heap s))) (PyRef (length (heap s)))
   \<and> fst (test_feedback_retrieval self (snd (setUp self s))) = Inr ()"
  by (simp add: setUp_eq retrieval_eq retrieval_test_eq py_eq_refl lookup_def nth_append
      fixture_def)

theorem retrieval_returns_fixture_witness:
  "fst (feedback_retrieval_result Feedback_retrieval
          (snd (setUp Feedback_retrieval initial_state))) = Inr (PyRef 0)
   \<and> fst (test_feedback_retrieval Feedback_retrieval
          (snd (setUp Feedback_retrieval initial_state))) = Inr ()"
  using retrieval_returns_fixture [of Feedback_retrieval initial_state]
  by (simp add: initial_state_def)

text \<open>
  C2. Run as a script, the module runs the suite: all eight test methods are executed, each
  once, and the process exits with status 0 when every test method raised nothing in the
  state in which it was started, and with status 1 otherwise. Six of the checks hold in
  every environment, so the status is 0 exactly when the difference of the two clock
  readings, as the float subtraction of line 89 computes it, is less than one half and the
  interpreter is at least version 3.6.
\<close>

theorem exit_status_reflects_checks:
  "FTT ''__main__'' e = Some (unittest_main e)
   \<and> unittest_main e =
       (if list_all (check_holds e (fst (snd (run_suite e)))) test_names then 0 else 1)
   \<and> testsRun (fst (run_suite e)) = 8
   \<and> set test_names = UNIV
   \<and> map fst (fst (snd (run_suite e))) =
       Start # SetUpClass #
       concat (map (\<lambda>t. [SetUp t, Test t, TearDown t]) test_names) @ [TearDownClass]
   \<and> list_all (check_holds e (fst (snd (run_suite e)))) test_names =
       (float_sub e (time_readings e 1) (time_readings e 0) < 1 / 2 \<and>
        (3 < major (sys_version_info e) \<or>
         (major (sys_version_info e) = 3 \<and> 6 \<le> minor (sys_version_info e))))"
proof -
  have "unittest_main e =
      (if list_all (check_holds e (fst (snd (run_suite e)))) test_names then 0 else 1)"
    unfolding holds_eq exit_eq ..
  then show ?thesis
    using tests_run [of e] test_names_all trace_phases [of e] holds_eq [of e]
    unfolding FTT_def by simp
qed

theorem exit_status_reflects_checks_witness:
  "FTT ''__main__'' (example_env 11 (1 / 8)) = Some 0
   \<and> FTT ''__main__'' (example_env 11 1) = Some 1
   \<and> FTT ''__main__'' (example_env 5 (1 / 8)) = Some 1"
  using exit_status_reflects_checks [of "example_env 11 (1 / 8)"]
    exit_status_reflects_checks [of "example_env 11 1"]
    exit_status_reflects_checks [of "example_env 5 (1 / 8)"]
  by (simp add: example_env_def)

text \<open>
  C3. Two distinct checks never see the same Feedback Record: in the run of the suite the
  references that two distinct tests find in \<^verbatim>\<open>feedback_entry\<close> when they start are
  different, each refers to a dict holding the fixture, and after its \<^verbatim>\<open>tearDown\<close> the
  instance of a test holds \<^verbatim>\<open>None\<close>. In any state at all, \<^verbatim>\<open>setUp\<close> binds the
  instance to an object at an address that was not allocated before, holding the fixture,
  also when an object of the store has just been overwritten; \<^verbatim>\<open>tearDown\<close> rebinds the
  instance to \<^verbatim>\<open>None\<close>; and rebinding the attribute of one instance leaves the attribute
  of every other instance as it was.
\<close>

theorem fixture_not_shared:
  assumes "t \<noteq> t'"
  shows
    "seen_by (fst (snd (run_suite e))) t \<noteq> seen_by (fst (snd (run_suite e))) t'
     \<and> (case map_of (fst (snd (run_suite e))) (SetUp t) of
          None \<Rightarrow> False | Some s1 \<Rightarrow> sees_fixture s1 t)
     \<and> (case map_of (fst (snd (run_suite e))) (TearDown t) of
          None \<Rightarrow> False | Some s3 \<Rightarrow> feedback_entry s3 t = Some PyNone)
     \<and> lookup s (length (heap s)) = None
     \<and> feedback_entry (snd (setUp t s)) t = Some (PyRef (length (heap s)))
     \<and> lookup (snd (setUp t s)) (length (heap s)) = Some (Dict fixture)
     \<and> feedback_entry (snd (setUp t (store a ob s))) t = Some (PyRef (length (heap s)))
     \<and> lookup (snd (setUp t (store a ob s))) (length (heap s)) = Some (Dict fixture)
     \<and> feedback_entry (snd (tearDown t s)) t = Some PyNone
     \<and> feedback_entry (snd (assign_feedback_entry t v s)) t' = feedback_entry s t'"
proof -
  let ?tr = "fst (snd (run_suite e))"
  have seen:
    "seen_by ?tr Add_feedback = Some (PyRef 0)"
    "seen_by ?tr Database_integration = Some (PyRef 1)"
    "seen_by ?tr Feedback_retrieval = Some (PyRef 4)"
    "seen_by ?tr Feedback_submission_time = Some (PyRef 7)"
    "seen_by ?tr Previous_bug_fix = Some (PyRef 8)"
    "seen_by ?tr Remove_feedback = Some (PyRef 11)"
    "seen_by ?tr Sql_injection_protection = Some (PyRef 12)"
    "seen_by ?tr System_compatibility = Some (PyRef 16)"
    using seen_all [of e] by (simp_all add: test_names_def)
  have distinct: "seen_by ?tr t \<noteq> seen_by ?tr t'"
    using assms by (cases t; cases t'; simp add: seen)
  have "\<forall>x\<in>set test_names. case map_of ?tr (SetUp x) of
          None \<Rightarrow> False | Some s1 \<Rightarrow> sees_fixture s1 x"
    using sees_all [of e] unfolding list_all_iff .
  then have sees: "case map_of ?tr (SetUp t) of None \<Rightarrow> False | Some s1 \<Rightarrow> sees_fixture s1 t"
    unfolding test_names_all by simp
  have "\<forall>x\<in>set test_names. case map_of ?tr (TearDown x) of
          None \<Rightarrow> False | Some s3 \<Rightarrow> feedback_entry s3 x = Some PyNone"
    using cleared_all [of e] unfolding list_all_iff .
  then have cleared: "case map_of ?tr (TearDown t) of
      None \<Rightarrow> False | Some s3 \<Rightarrow> feedback_entry s3 t = Some PyNone"
    unfolding test_names_all by simp
  have fresh: "lookup s (length (heap s)) = None"
    by (simp add: lookup_def)
  have bound: "feedback_entry (snd (setUp t s)) t = Some (PyRef (length (heap s)))"
    by (simp add: setUp_proj)
  have holds: "lookup (snd (setUp t s)) (length (heap s)) = Some (Dict fixture)"
    by (simp add: lookup_setUp)
  have bound': "feedback_entry (snd (setUp t (store a ob s))) t = Some (PyRef (length (heap s)))"
    by (simp add: setUp_proj store_def)
  have holds': "lookup (snd (setUp t (store a ob s))) (length (heap s)) = Some (Dict fixture)"
    by (simp add: lookup_setUp store_def)
  have null: "feedback_entry (snd (tearDown t s)) t = Some PyNone"
    by (simp add: tearDown_proj)
  have other: "feedback_entry (snd (assign_feedback_entry t v s)) t' = feedback_entry s t'"
    using assms by (simp add: assign_feedback_entry_def)
  show ?thesis
    using distinct sees cleared fresh bound holds bound' holds' null other by blast
qed

theorem fixture_not_shared_witness:
  "Add_feedback \<noteq> Remove_feedback
   \<and> seen_by (fst (snd (run_suite (example_env 11 (1 / 8))))) Add_feedback \<noteq>
       seen_by (fst (snd (run_suite (example_env 11 (1 / 8))))) Remove_feedback
   \<and> feedback_entry (snd (setUp Add_feedback initial_state)) Add_feedback = Some (PyRef 0)
   \<and> feedback_entry (snd (tearDown Add_feedback initial_state)) Add_feedback = Some PyNone"
proof -
  have h: "Add_feedback \<noteq> Remove_feedback"
    by simp
  show ?thesis
    using h fixture_not_shared [OF h, of "example_env 11 (1 / 8)" initial_state]
    by (simp add: initial_state_def)
qed

text \<open>
  C4. In the removal check, once \<^verbatim>\<open>None\<close> has been assigned to the fixture reference,
  reading the reference yields \<^verbatim>\<open>None\<close>; the check's assertion holds, and the reference
  is \<^verbatim>\<open>None\<close> when the check ends. This is so in every state.
\<close>

theorem removal_reads_none:
  "fst (read_feedback_entry self (snd (assign_feedback_entry self PyNone s))) = Inr PyNone
   \<and> fst (test_remove_feedback self s) = Inr ()
   \<and> feedback_entry (snd (test_remove_feedback self s)) self = Some PyNone"
  by (simp add: remove_eq read_feedback_entry_def assign_feedback_entry_def)

theorem removal_reads_none_witness:
  "fst (test_remove_feedback Remove_feedback (snd (setUp Remove_feedback initial_state))) =
     Inr ()
   \<and> feedback_entry
       (snd (test_remove_feedback Remove_feedback (snd (setUp Remove_feedback initial_state))))
       Remove_feedback = Some PyNone"
  using removal_reads_none [of Remove_feedback "snd (setUp Remove_feedback initial_state)"]
  by simp

text \<open>
  C5. In the malicious-input check the mock's \<^verbatim>\<open>add_feedback\<close> is configured to return
  \<^verbatim>\<open>False\<close>; called with a record whose feedback field is the payload
  \<^verbatim>\<open>DROP TABLE feedback; --\<close> it returns \<^verbatim>\<open>False\<close>, and the check's assertion of failure
  holds. This is so in every state.
\<close>

theorem sql_injection_observes_failure:
  "fst (sql_injection_result self s) = Inr (PyBool False)
   \<and> lookup (snd (sql_injection_result self s)) (length (heap s) + 1) =
       Some (Mock \<lparr>return_value = Some (PyBool False), side_effect = None, children = [],
                   call_args_list = [[PyRef (length (heap s) + 2)]]\<rparr>)
   \<and> lookup (snd (sql_injection_result self s)) (length (heap s) + 2) =
       Some (Dict [(''student_id'', PyInt 12345), (''course'', PyStr ''CS101''),
                   (''feedback'', PyStr ''DROP TABLE feedback; --'')])
   \<and> \<not> truthy (snd (sql_injection_result self s)) (PyBool False)
   \<and> fst (test_sql_injection_protection self s) = Inr ()"
  by (simp add: sql_eq sql_test_eq lookup_def nth_append truthy_def)

theorem sql_injection_observes_failure_witness:
  "fst (sql_injection_result Sql_injection_protection initial_state) = Inr (PyBool False)
   \<and> fst (test_sql_injection_protection Sql_injection_protection initial_state) = Inr ()"
  using sql_injection_observes_failure [of Sql_injection_protection initial_state]
  by simp

text \<open>
  C6. In the non-regression check the mock's \<^verbatim>\<open>get_feedback\<close> is configured to yield
  \<^verbatim>\<open>Old Feedback\<close> and then \<^verbatim>\<open>Fixed Feedback\<close>; the two successive calls with the
  identifier 12345 observe these two values, which are unequal, and the check's assertion
  holds. This is so in every state.
\<close>

theorem previous_bug_fix_attempts_differ:
  "fst (previous_bug_fix_attempts self s) =
     Inr (PyStr ''Old Feedback'', PyStr ''Fixed Feedback'')
   \<and> lookup (snd (previous_bug_fix_attempts self s)) (length (heap s) + 1) =
       Some (Mock \<lparr>return_value = None, side_effect = Some [], children = [],
                   call_args_list = [[PyInt 12345], [PyInt 12345]]\<rparr>)
   \<and> \<not> py_eq (snd (previous_bug_fix_attempts self s))
         (PyStr ''Old Feedback'') (PyStr ''Fixed Feedback'')
   \<and> fst (test_previous_bug_fix self s) = Inr ()"
  by (simp add: bugfix_eq bugfix_test_eq lookup_def nth_append py_eq_def)

theorem previous_bug_fix_attempts_differ_witness:
  "fst (previous_bug_fix_attempts Previous_bug_fix initial_state) =
     Inr (PyStr ''Old Feedback'', PyStr ''Fixed Feedback'')
   \<and> fst (test_previous_bug_fix Previous_bug_fix initial_state) = Inr ()"
  using previous_bug_fix_attempts_differ [of Previous_bug_fix initial_state]
  by simp

text \<open>
  C7. In the state \<^verbatim>\<open>setUp\<close> leaves, whatever the state before, the \<^verbatim>\<open>course\<close> item of
  the fixture record is \<^verbatim>\<open>CS101\<close>, and the equality assertion of the field-integrity check
  holds.
\<close>

theorem fixture_course_is_CS101:
  "fst (bind (read_feedback_entry self) (\<lambda>entry. subscript entry ''course'')
          (snd (setUp self s))) = Inr (PyStr ''CS101'')
   \<and> fst (test_add_feedback self (snd (setUp self s))) = Inr ()"
  by (simp add: setUp_eq test_add_feedback_def fixture_def prim_defs)

theorem fixture_course_is_CS101_witness:
  "fst (test_add_feedback Add_feedback (snd (setUp Add_feedback initial_state))) = Inr ()"
  using fixture_course_is_CS101 [of Add_feedback initial_state]
  by simp

text \<open>
  C9. Over the run of the suite the class attribute \<^verbatim>\<open>database_connection\<close> changes
  exactly twice: it does not exist at the start, is the marker string from \<^verbatim>\<open>setUpClass\<close>
  on, through the \<^verbatim>\<open>setUp\<close>, test method and \<^verbatim>\<open>tearDown\<close> of all eight tests, and is
  \<^verbatim>\<open>None\<close> after \<^verbatim>\<open>tearDownClass\<close>. No test method reads it (started with another value
  of the attribute, a test method has the same outcome and leaves the same state, but for
  that value) or writes it (the attribute is the same after as before), in any state; nor
  do \<^verbatim>\<open>setUp\<close> and \<^verbatim>\<open>tearDown\<close> write it.
\<close>

theorem handle_written_twice:
  "map (database_connection \<circ> snd) (fst (snd (run_suite e))) =
     None # replicate 25 (Some (PyStr ''Mock Database Connection'')) @ [Some PyNone]
   \<and> map fst (fst (snd (run_suite e))) =
       Start # SetUpClass #
       concat (map (\<lambda>t. [SetUp t, Test t, TearDown t]) test_names) @ [TearDownClass]
   \<and> changes (map (database_connection \<circ> snd) (fst (snd (run_suite e)))) = 2
   \<and> test_method e t (s\<lparr>database_connection := v\<rparr>) =
       (fst (test_method e t s), (snd (test_method e t s))\<lparr>database_connection := v\<rparr>)
   \<and> database_connection (snd (test_method e t s)) = database_connection s
   \<and> database_connection (snd (setUp t s)) = database_connection s
   \<and> database_connection (snd (tearDown t s)) = database_connection s"
  using trace_handle [of e] trace_phases [of e] trace_handle_changes [of e]
    test_method_ignores_handle [of e t v s] test_method_keeps_handle [of e t s]
    setUp_proj(3) [of t s] tearDown_proj(3) [of t s]
  by blast

theorem handle_written_twice_witness:
  "changes (map (database_connection \<circ> snd)
      (fst (snd (run_suite (example_env 11 (1 / 8)))))) = 2
   \<and> database_connection
       (snd (test_method (example_env 11 (1 / 8)) Add_feedback
          (snd (setUp Add_feedback initial_state)))) = None"
proof -
  note run = handle_written_twice [where e = "example_env 11 (1 / 8)" and t = Add_feedback
      and s = "snd (setUp Add_feedback initial_state)" and v = None]
  have twice: "changes (map (database_connection \<circ> snd)
      (fst (snd (run_suite (example_env 11 (1 / 8)))))) = 2"
    using run by blast
  have kept: "database_connection
      (snd (test_method (example_env 11 (1 / 8)) Add_feedback
         (snd (setUp Add_feedback initial_state)))) =
      database_connection (snd (setUp Add_feedback initial_state))"
    using run by blast
  have "database_connection (snd (setUp Add_feedback initial_state)) = None"
    by (simp add: setUp_proj initial_state_def)
  with twice kept show ?thesis
    by simp
qed

text \<open>
  C10. \<^verbatim>\<open>setUp\<close> cannot raise and fully pins the fixture: in whatever state it runs, it
  leaves the instance referring to a dict that is exactly the mapping of \<^verbatim>\<open>student_id\<close>
  to 12345, \<^verbatim>\<open>course\<close> to \<^verbatim>\<open>CS101\<close> and \<^verbatim>\<open>feedback\<close> to \<^verbatim>\<open>Great course!\<close>; the
  \<^verbatim>\<open>student_id\<close> item of that dict is 12345, the very argument recorded for the call of
  \<^verbatim>\<open>get_feedback\<close> in the retrieval check.
\<close>

theorem setUp_pins_fixture:
  "fst (setUp self s) = Inr ()
   \<and> feedback_entry (snd (setUp self s)) self = Some (PyRef (length (heap s)))
   \<and> lookup (snd (setUp self s)) (length (heap s)) =
       Some (Dict [(''student_id'', PyInt 12345), (''course'', PyStr ''CS101''),
                   (''feedback'', PyStr ''Great course!'')])
   \<and> fst (bind (read_feedback_entry self) (\<lambda>entry. subscript entry ''student_id'')
            (snd (setUp self s))) = Inr (PyInt 12345)
   \<and> (case lookup (snd (feedback_retrieval_result self (snd (setUp self s))))
              (length (heap s) + 2) of
         Some (Mock m) \<Rightarrow> call_args_list m = [[PyInt 12345]]
       | _ \<Rightarrow> False)"
  by (simp add: setUp_eq retrieval_eq fixture_def lookup_def nth_append bind_def
      read_feedback_entry_def subscript_def)

theorem setUp_pins_fixture_witness:
  "fst (setUp Feedback_retrieval initial_state) = Inr ()
   \<and> feedback_entry (snd (setUp Feedback_retrieval initial_state)) Feedback_retrieval =
       Some (PyRef 0)
   \<and> lookup (snd (setUp Feedback_retrieval initial_state)) 0 =
       Some (Dict [(''student_id'', PyInt 12345), (''course'', PyStr ''CS101''),
                   (''feedback'', PyStr ''Great course!'')])"
  using setUp_pins_fixture [of Feedback_retrieval initial_state]
  by (simp add: initial_state_def)

end
